theory Spec2Isabelle
  imports Main "HOL-Library.Word" "HOL-Library.Signed_Division"
begin

section \<open>Go values used by the consumer\<close>

text \<open>
  \<open>time.Duration\<close> and the result of \<open>UnixMilli\<close> are Go \<open>int64\<close>: a 64-bit word read
  as two's complement by \<open>sint\<close>. Multiplication is the word's (it wraps); Go's \<open>/\<close>
  truncates towards zero, which is \<open>sdiv\<close> on the signed readings.
\<close>

type_synonym int64 = "64 word"
type_synonym Duration = "64 word"

definition Millisecond :: Duration where
  "Millisecond = 1000000"

definition Second :: Duration where
  "Second = 1000 * Millisecond"

definition Minute :: Duration where
  "Minute = 60 * Second"

definition Hour :: Duration where
  "Hour = 60 * Minute"

definition go_div :: "int64 \<Rightarrow> int64 \<Rightarrow> int64" where
  "go_div a b = word_of_int (sint a sdiv sint b)"

text \<open>
  Go \<open>error\<close> values; the nil error is \<open>None :: error option\<close>. \<open>redis_Nil\<close> is the
  sentinel \<open>redis.Nil\<close>, \<open>OtherError\<close> any other error value of the store client or of
  the codec, and \<open>Errorf f e\<close> the value of \<open>fmt.Errorf(f, ..., e)\<close>, where \<open>e\<close> is the
  operand given to the verb \<open>%w\<close> (\<open>None\<close> when that operand is nil or \<open>f\<close> has no
  \<open>%w\<close>). \<open>fmt.Errorf\<close> never returns nil.
\<close>

datatype error =
    redis_Nil
  | context_Canceled
  | OtherError string
  | Errorf string "error option"

text \<open>\<open>errors.Is\<close> on the chain of wrapped errors.\<close>

fun Is_chain :: "error \<Rightarrow> error \<Rightarrow> bool" where
  "Is_chain (Errorf f e) target =
     (Errorf f e = target \<or> (case e of None \<Rightarrow> False | Some e' \<Rightarrow> Is_chain e' target))"
| "Is_chain err target = (err = target)"

definition errors_Is :: "error option \<Rightarrow> error \<Rightarrow> bool" where
  "errors_Is err target = (case err of None \<Rightarrow> False | Some e \<Rightarrow> Is_chain e target)"

text \<open>
  \<open>fmt.Sprintf\<close> for the verb \<open>%s\<close> on string operands, the only verb of the two
  \<open>Sprintf\<close> calls of the consumer. An operand is copied as it is and not scanned again.
\<close>

fun Sprintf :: "string \<Rightarrow> string list \<Rightarrow> string" where
  "Sprintf [] args = []"
| "Sprintf (c # fmt) args =
     (if c = CHR ''%'' then
        (case fmt of
           [] \<Rightarrow> ''%!(NOVERB)''
         | v # rest \<Rightarrow>
             (if v = CHR ''s'' then
                (case args of
                   [] \<Rightarrow> ''%!s(MISSING)'' @ Sprintf rest []
                 | a # args' \<Rightarrow> a @ Sprintf rest args')
              else c # v # Sprintf rest args))
      else c # Sprintf fmt args)"

text \<open>
  An \<open>interface{}\<close> value: nil, a string, an \<open>int64\<close>, or a value of some other dynamic
  type. The comma-ok type assertion \<open>v.(string)\<close> yields the zero string and \<open>false\<close>
  when the dynamic type is not \<open>string\<close>; it cannot panic.
\<close>

datatype any = any_nil | any_string string | any_int64 int64 | any_bytes string

fun assert_string :: "any \<Rightarrow> string \<times> bool" where
  "assert_string (any_string s) = (s, True)"
| "assert_string v = ('''', False)"

text \<open>
  Indexing a slice: \<open>None\<close> is Go's run-time panic for an index out of range.
\<close>

fun index :: "'a list \<Rightarrow> nat \<Rightarrow> 'a option" where
  "index xs i = (if i < length xs then Some (xs ! i) else None)"

datatype 'r outcome = Panics | Returns 'r

section \<open>The store client\<close>

record XMessage =
  XMessage_ID :: string
  XMessage_Values :: "string \<rightharpoonup> any"

record XStream =
  Stream :: string
  Messages :: "XMessage list"

record XReadGroupArgs =
  Group :: string
  Consumer :: string
  Streams :: "string list"
  Count :: int64
  Block :: Duration
  NoAck :: bool

text \<open>\<open>context.Context\<close>: \<open>ctx_Err\<close> is what \<open>ctx.Err()\<close> returns, non-nil once the
  context is cancelled.\<close>

record Context =
  ctx_Err :: "error option"

text \<open>
  \<open>redis.UniversalClient\<close> is an interface of the go-redis library; the consumer calls
  four of its commands. The client is a parameter: each command is a function of the
  store's state \<open>'st\<close> that answers with the pair \<open>.Result()\<close> (or \<open>.Err()\<close>) returns and
  the next state. Nothing is assumed about the answers.
\<close>

record 'st client =
  client_Set :: "Context \<Rightarrow> string \<Rightarrow> any \<Rightarrow> Duration \<Rightarrow> 'st \<Rightarrow> error option \<times> 'st"
  client_SetNX :: "Context \<Rightarrow> string \<Rightarrow> any \<Rightarrow> Duration \<Rightarrow> 'st \<Rightarrow> (bool \<times> error option) \<times> 'st"
  client_XAck :: "Context \<Rightarrow> string \<Rightarrow> string \<Rightarrow> string list \<Rightarrow> 'st \<Rightarrow> (int64 \<times> error option) \<times> 'st"
  client_XReadGroup :: "Context \<Rightarrow> XReadGroupArgs \<Rightarrow> 'st \<Rightarrow> (XStream list \<times> error option) \<times> 'st"

datatype cmd =
    CmdSet string any Duration
  | CmdSetNX string any Duration
  | CmdXAck string string "string list"
  | CmdXReadGroup XReadGroupArgs

datatype level = Debug | Info | Error

datatype log_entry = Log level string "string list" "error option"

text \<open>
  What the consumer acts on: the store behind the client, the commands sent to the
  client so far (oldest first), the log lines written so far, and the wall clock in
  epoch milliseconds (\<open>time.Now().UnixMilli()\<close>).
\<close>

record 'st world =
  store :: 'st
  calls :: "cmd list"
  logs :: "log_entry list"
  clock :: int64

definition do_Set ::
  "'st client \<Rightarrow> Context \<Rightarrow> string \<Rightarrow> any \<Rightarrow> Duration \<Rightarrow> 'st world \<Rightarrow> error option \<times> 'st world" where
  "do_Set cl ctx key v expiration w =
     (let (err, s) = client_Set cl ctx key v expiration (store w)
      in (err, w\<lparr>store := s, calls := calls w @ [CmdSet key v expiration]\<rparr>))"

definition do_SetNX ::
  "'st client \<Rightarrow> Context \<Rightarrow> string \<Rightarrow> any \<Rightarrow> Duration \<Rightarrow> 'st world
     \<Rightarrow> (bool \<times> error option) \<times> 'st world" where
  "do_SetNX cl ctx key v expiration w =
     (let (r, s) = client_SetNX cl ctx key v expiration (store w)
      in (r, w\<lparr>store := s, calls := calls w @ [CmdSetNX key v expiration]\<rparr>))"

definition do_XAck ::
  "'st client \<Rightarrow> Context \<Rightarrow> string \<Rightarrow> string \<Rightarrow> string list \<Rightarrow> 'st world
     \<Rightarrow> (int64 \<times> error option) \<times> 'st world" where
  "do_XAck cl ctx stream grp ids w =
     (let (r, s) = client_XAck cl ctx stream grp ids (store w)
      in (r, w\<lparr>store := s, calls := calls w @ [CmdXAck stream grp ids]\<rparr>))"

definition do_XReadGroup ::
  "'st client \<Rightarrow> Context \<Rightarrow> XReadGroupArgs \<Rightarrow> 'st world
     \<Rightarrow> (XStream list \<times> error option) \<times> 'st world" where
  "do_XReadGroup cl ctx a w =
     (let (r, s) = client_XReadGroup cl ctx a (store w)
      in (r, w\<lparr>store := s, calls := calls w @ [CmdXReadGroup a]\<rparr>))"

definition write_log :: "log_entry \<Rightarrow> 'st world \<Rightarrow> 'st world" where
  "write_log e w = w\<lparr>logs := logs w @ [e]\<rparr>"

section \<open>The consumer (src/pubsub/consumer.go)\<close>

record ConsumerConfig =
  ResponseEntryTimeout :: Duration
  KeepAliveTimeout :: Duration
  RedisURL :: string
  RedisStream :: string
  RedisGroup :: string

text \<open>The two default configurations; the constant \<open>defaultGroup\<close> is declared outside
  the file and is a parameter. Neither sets \<open>RedisURL\<close>, which is then the empty string.\<close>

definition DefaultConsumerConfig :: "string \<Rightarrow> ConsumerConfig" where
  "DefaultConsumerConfig defaultGroup =
     \<lparr>ResponseEntryTimeout = Hour, KeepAliveTimeout = 5 * Minute, RedisURL = '''',
      RedisStream = ''default'', RedisGroup = defaultGroup\<rparr>"

definition DefaultTestConsumerConfig :: "string \<Rightarrow> ConsumerConfig" where
  "DefaultTestConsumerConfig defaultGroup =
     \<lparr>ResponseEntryTimeout = Minute, KeepAliveTimeout = 30 * Millisecond, RedisURL = '''',
      RedisStream = ''default'', RedisGroup = defaultGroup\<rparr>"

record 'st Consumer =
  id_consumer :: string
  client :: "'st client"
  cfg :: ConsumerConfig

record 'a Message =
  ID :: string
  Value :: 'a

text \<open>
  \<open>NewConsumer\<close>. \<open>redisutil.RedisClientFromURL\<close> and \<open>uuid.NewString\<close> are not part of
  the file: the first is a parameter answering with a client and an error, the second
  the string it draws.
\<close>

definition NewConsumer ::
  "(string \<Rightarrow> 'st client \<times> error option) \<Rightarrow> string \<Rightarrow> Context \<Rightarrow> ConsumerConfig
     \<Rightarrow> 'st Consumer option \<times> error option" where
  "NewConsumer RedisClientFromURL uuid_NewString ctx config =
     (if RedisURL config = '''' then (None, Some (Errorf ''redis url cannot be empty'' None))
      else
        (let (c, err) = RedisClientFromURL (RedisURL config)
         in if err \<noteq> None then (None, err)
            else (Some \<lparr>id_consumer = uuid_NewString, client = c, cfg = config\<rparr>, None)))"

definition heartBeatKey :: "string \<Rightarrow> string" where
  "heartBeatKey i = Sprintf ''consumer:%s:heartbeat'' [i]"

definition heartBeat :: "'st Consumer \<Rightarrow> Context \<Rightarrow> 'st world \<Rightarrow> 'st world" where
  "heartBeat c ctx w =
     (let (err, w1) = do_Set (client c) ctx (heartBeatKey (id_consumer c)) (any_int64 (clock w))
                        (2 * KeepAliveTimeout (cfg c)) w
      in if err \<noteq> None then
           (let l = (if ctx_Err ctx \<noteq> None then Error else Info)
            in write_log (Log l ''Updating heardbeat'' [''consumer'', id_consumer c, ''error''] err) w1)
         else w1)"

text \<open>The function \<open>Start\<close> hands to \<open>CallIteratively\<close>: one tick, and the wait it asks for.\<close>

definition Start_callback :: "'st Consumer \<Rightarrow> Context \<Rightarrow> 'st world \<Rightarrow> Duration \<times> 'st world" where
  "Start_callback c ctx w =
     (let w1 = heartBeat c ctx w
      in (go_div (KeepAliveTimeout (cfg c)) 10, w1))"

text \<open>
  \<open>Consume\<close>. The constant \<open>messageKey\<close> and the method \<open>Unmarshal\<close> of the type
  parameter are declared outside the file and are parameters. In
  \<open>len(res) != 1 || len(res[0].Messages) != 1\<close> the right operand is evaluated only when
  the left one is false; every \<open>res[0]\<close> and \<open>Messages[0]\<close> is an \<open>index\<close> that can panic.
\<close>

definition Consume ::
  "string \<Rightarrow> (string \<Rightarrow> 'a \<times> error option) \<Rightarrow> 'st Consumer \<Rightarrow> Context \<Rightarrow> 'st world
     \<Rightarrow> ('a Message option \<times> error option) outcome \<times> 'st world" where
  "Consume messageKey Unmarshal c ctx w =
     (let ((res, err), w1) =
            do_XReadGroup (client c) ctx
              \<lparr>Group = RedisGroup (cfg c), Consumer = id_consumer c,
               Streams = [RedisStream (cfg c), ''>''], Count = 1, Block = Millisecond,
               NoAck = False\<rparr> w;
          shape_error =
            Returns (None, Some (Errorf ''redis returned entries: %+v, for querying single message'' None))
      in if errors_Is err redis_Nil then (Returns (None, None), w1)
         else if err \<noteq> None then
           (Returns (None, Some (Errorf ''reading message for consumer: %q: %w'' err)), w1)
         else if length res \<noteq> 1 then (shape_error, w1)
         else
           (case index res 0 of
              None \<Rightarrow> (Panics, w1)
            | Some s \<Rightarrow>
                if length (Messages s) \<noteq> 1 then (shape_error, w1)
                else
                  (case index (Messages s) 0 of
                     None \<Rightarrow> (Panics, w1)
                   | Some m \<Rightarrow>
                       (let w2 = write_log
                                   (Log Debug
                                      (Sprintf ''Consumer: %s consuming message: %s''
                                         [id_consumer c, XMessage_ID m]) [] None) w1;
                            v = (case XMessage_Values m messageKey of
                                   None \<Rightarrow> any_nil | Some x \<Rightarrow> x);
                            (data, ok) = assert_string v
                        in if \<not> ok then
                             (Returns (None, Some (Errorf ''casting request to string: %w'' err)), w2)
                           else
                             (let (val, err') = Unmarshal data
                              in if err' \<noteq> None then
                                   (Returns (None,
                                      Some (Errorf ''unmarshaling value: %v, error: %w'' err')), w2)
                                 else
                                   (Returns (Some \<lparr>ID = XMessage_ID m, Value = val\<rparr>, None), w2))))))"

definition SetResult ::
  "'st Consumer \<Rightarrow> Context \<Rightarrow> string \<Rightarrow> string \<Rightarrow> 'st world \<Rightarrow> error option \<times> 'st world" where
  "SetResult c ctx messageID result w =
     (let ((acquired, err), w1) =
            do_SetNX (client c) ctx messageID (any_string result) (ResponseEntryTimeout (cfg c)) w
      in if err \<noteq> None \<or> \<not> acquired then
           (Some (Errorf ''setting result for  message: %v, error: %w'' err), w1)
         else
           (let ((n, err2), w2) =
                  do_XAck (client c) ctx (RedisStream (cfg c)) (RedisGroup (cfg c)) [messageID] w1
            in if err2 \<noteq> None then
                 (Some (Errorf ''acking message: %v, error: %w'' err2), w2)
               else (None, w2)))"

text \<open>Shorthand for the arguments \<open>Consume\<close> gives the group read, the world after
  that read, and the debug line \<open>Consume\<close> logs for an item.\<close>

abbreviation read_args :: "'st Consumer \<Rightarrow> XReadGroupArgs" where
  "read_args c \<equiv>
     \<lparr>Group = RedisGroup (cfg c), Consumer = id_consumer c,
      Streams = [RedisStream (cfg c), ''>''], Count = 1, Block = Millisecond, NoAck = False\<rparr>"

abbreviation after_read :: "'st Consumer \<Rightarrow> 'st \<Rightarrow> 'st world \<Rightarrow> 'st world" where
  "after_read c s1 w \<equiv> w\<lparr>store := s1, calls := calls w @ [CmdXReadGroup (read_args c)]\<rparr>"

abbreviation debug_line :: "'st Consumer \<Rightarrow> XMessage \<Rightarrow> log_entry" where
  "debug_line c m \<equiv>
     Log Debug (Sprintf ''Consumer: %s consuming message: %s'' [id_consumer c, XMessage_ID m]) [] None"

section \<open>A reference store\<close>

text \<open>
  Modelled from the spec: the store itself (Redis) is an external collaborator and not
  part of the source. Its section 3 gives the result record create-only,
  first-writer-wins semantics, and section 4.3 makes the acknowledgment remove the
  delivery identifier from the pending set. \<open>redis_client\<close> is a client with these
  semantics, used where a claim speaks of what is stored; every command can also
  fail, before or after taking effect, as the next entry of \<open>faults\<close> says. Expiry is
  recorded with the value; no time passes between commands.
\<close>

datatype fault = NoFault | FailBefore error | FailAfter error

record redis =
  strings :: "string \<rightharpoonup> any \<times> Duration"
  undelivered :: "XMessage list"
  pending :: "string list"
  faults :: "fault list"

definition next_fault :: "redis \<Rightarrow> fault \<times> redis" where
  "next_fault st = (case faults st of [] \<Rightarrow> (NoFault, st) | f # fs \<Rightarrow> (f, st\<lparr>faults := fs\<rparr>))"

definition redis_Set :: "Context \<Rightarrow> string \<Rightarrow> any \<Rightarrow> Duration \<Rightarrow> redis \<Rightarrow> error option \<times> redis" where
  "redis_Set ctx key v expiration st =
     (let (f, st1) = next_fault st;
          st2 = st1\<lparr>strings := (strings st1)(key \<mapsto> (v, expiration))\<rparr>
      in case f of
           NoFault \<Rightarrow> (None, st2)
         | FailBefore e \<Rightarrow> (Some e, st1)
         | FailAfter e \<Rightarrow> (Some e, st2))"

definition redis_SetNX ::
  "Context \<Rightarrow> string \<Rightarrow> any \<Rightarrow> Duration \<Rightarrow> redis \<Rightarrow> (bool \<times> error option) \<times> redis" where
  "redis_SetNX ctx key v expiration st =
     (let (f, st1) = next_fault st;
          (acquired, st2) =
            (if strings st1 key = None
             then (True, st1\<lparr>strings := (strings st1)(key \<mapsto> (v, expiration))\<rparr>)
             else (False, st1))
      in case f of
           NoFault \<Rightarrow> ((acquired, None), st2)
         | FailBefore e \<Rightarrow> ((False, Some e), st1)
         | FailAfter e \<Rightarrow> ((False, Some e), st2))"

definition redis_XAck ::
  "Context \<Rightarrow> string \<Rightarrow> string \<Rightarrow> string list \<Rightarrow> redis \<Rightarrow> (int64 \<times> error option) \<times> redis" where
  "redis_XAck ctx stream grp ids st =
     (let (f, st1) = next_fault st;
          n = of_nat (length (filter (\<lambda>i. i \<in> set ids) (pending st1)));
          st2 = st1\<lparr>pending := filter (\<lambda>i. i \<notin> set ids) (pending st1)\<rparr>
      in case f of
           NoFault \<Rightarrow> ((n, None), st2)
         | FailBefore e \<Rightarrow> ((0, Some e), st1)
         | FailAfter e \<Rightarrow> ((0, Some e), st2))"

definition redis_XReadGroup ::
  "Context \<Rightarrow> XReadGroupArgs \<Rightarrow> redis \<Rightarrow> (XStream list \<times> error option) \<times> redis" where
  "redis_XReadGroup ctx a st =
     (let (f, st1) = next_fault st
      in case f of
           FailBefore e \<Rightarrow> (([], Some e), st1)
         | FailAfter e \<Rightarrow>
             (([], Some e),
              (case undelivered st1 of [] \<Rightarrow> st1
               | m # ms \<Rightarrow> st1\<lparr>undelivered := ms, pending := pending st1 @ [XMessage_ID m]\<rparr>))
         | NoFault \<Rightarrow>
             (case undelivered st1 of
                [] \<Rightarrow> (([], Some redis_Nil), st1)
              | m # ms \<Rightarrow>
                  (([\<lparr>Stream = hd (Streams a), Messages = [m]\<rparr>], None),
                   st1\<lparr>undelivered := ms, pending := pending st1 @ [XMessage_ID m]\<rparr>)))"

definition redis_client :: "redis client" where
  "redis_client =
     \<lparr>client_Set = redis_Set, client_SetNX = redis_SetNX, client_XAck = redis_XAck,
      client_XReadGroup = redis_XReadGroup\<rparr>"

section \<open>A concrete consumer\<close>

text \<open>A consumer of the test configuration on the reference store, for the instances
  at which the theorems below are used. The codec of the instance rejects the payload
  \<open>bad\<close> and returns any other payload as it is.\<close>

definition example_cfg :: ConsumerConfig where
  "example_cfg = (DefaultTestConsumerConfig ''grp'')\<lparr>RedisURL := ''redis://localhost:6379''\<rparr>"

definition example_consumer :: "redis Consumer" where
  "example_consumer = \<lparr>id_consumer = ''c1'', client = redis_client, cfg = example_cfg\<rparr>"

definition example_world :: "XMessage list \<Rightarrow> fault list \<Rightarrow> redis world" where
  "example_world items fs =
     \<lparr>store = \<lparr>strings = Map.empty, undelivered = items, pending = [''1-0''], faults = fs\<rparr>,
      calls = [], logs = [], clock = 1700000000000\<rparr>"

definition example_Unmarshal :: "string \<Rightarrow> string \<times> error option" where
  "example_Unmarshal data =
     (if data = ''bad'' then ('''', Some (OtherError ''decode'')) else (data, None))"

definition live :: Context where
  "live = \<lparr>ctx_Err = None\<rparr>"

definition cancelled :: Context where
  "cancelled = \<lparr>ctx_Err = Some context_Canceled\<rparr>"

text \<open>A client that answers every group read with one given reply, for replies the
  reference store never gives.\<close>

definition canned_client :: "XStream list \<times> error option \<Rightarrow> unit client" where
  "canned_client reply =
     \<lparr>client_Set = (\<lambda>ctx key v expiration s. (None, s)),
      client_SetNX = (\<lambda>ctx key v expiration s. ((False, None), s)),
      client_XAck = (\<lambda>ctx stream grp ids s. ((0, None), s)),
      client_XReadGroup = (\<lambda>ctx a s. (reply, s))\<rparr>"

definition canned_consumer :: "XStream list \<times> error option \<Rightarrow> unit Consumer" where
  "canned_consumer reply =
     \<lparr>id_consumer = ''c1'', client = canned_client reply, cfg = example_cfg\<rparr>"

definition canned_world :: "unit world" where
  "canned_world = \<lparr>store = (), calls = [], logs = [], clock = 1700000000000\<rparr>"

definition item :: "string \<Rightarrow> any \<Rightarrow> XMessage" where
  "item i v = \<lparr>XMessage_ID = i, XMessage_Values = [''msg'' \<mapsto> v]\<rparr>"

text \<open>The concrete consumer with a keep-alive interval of \<open>2 ^ 62\<close> nanoseconds.\<close>

definition long_consumer :: "redis Consumer" where
  "long_consumer =
     example_consumer\<lparr>cfg := example_cfg\<lparr>KeepAliveTimeout := 4611686018427387904\<rparr>\<rparr>"

section \<open>Evaluation of the concrete consumer\<close>

lemmas example_defs =
  example_cfg_def example_consumer_def example_world_def example_Unmarshal_def live_def
  cancelled_def canned_client_def canned_consumer_def canned_world_def item_def
  DefaultTestConsumerConfig_def redis_client_def redis_Set_def redis_SetNX_def
  redis_XAck_def redis_XReadGroup_def next_fault_def

section \<open>SetResult\<close>

text \<open>\<open>SetResult\<close> in terms of the answer of the create-only write.\<close>

lemma SetResult_eq:
  assumes "client_SetNX (client c) ctx D (any_string r) (ResponseEntryTimeout (cfg c)) (store w)
             = ((acquired, err), s1)"
  shows "SetResult c ctx D r w =
     (if err \<noteq> None \<or> \<not> acquired then
        (Some (Errorf ''setting result for  message: %v, error: %w'' err),
         w\<lparr>store := s1, calls := calls w @ [CmdSetNX D (any_string r) (ResponseEntryTimeout (cfg c))]\<rparr>)
      else
        (let ((n, err2), s2) = client_XAck (client c) ctx (RedisStream (cfg c)) (RedisGroup (cfg c)) [D] s1
         in (if err2 \<noteq> None then Some (Errorf ''acking message: %v, error: %w'' err2) else None,
             w\<lparr>store := s2,
               calls := calls w @ [CmdSetNX D (any_string r) (ResponseEntryTimeout (cfg c)),
                                   CmdXAck (RedisStream (cfg c)) (RedisGroup (cfg c)) [D]]\<rparr>)))"
  using assms
  by (simp add: SetResult_def do_SetNX_def do_XAck_def Let_def split: prod.splits)

text \<open>
  Claim C1. In every execution of \<open>SetResult\<close> for a delivery identifier \<open>D\<close>, the commands
  sent to the store are the create-only write of \<open>D\<close> and then, only when that write
  answered "acquired" with a nil error, the acknowledgment of \<open>D\<close>: the acknowledgment
  is never sent before the write, and never without its success.
\<close>

theorem SetResult_ack_only_after_write:
  assumes "client_SetNX (client c) ctx D (any_string r) (ResponseEntryTimeout (cfg c)) (store w)
             = ((acquired, err), s1)"
  shows "calls (snd (SetResult c ctx D r w)) =
           calls w @ CmdSetNX D (any_string r) (ResponseEntryTimeout (cfg c)) #
             (if acquired \<and> err = None
              then [CmdXAck (RedisStream (cfg c)) (RedisGroup (cfg c)) [D]] else [])"
  by (simp add: SetResult_eq [OF assms] Let_def split: prod.splits)

theorem SetResult_ack_only_after_write_witness:
  "client_SetNX (client example_consumer) live ''1-0'' (any_string ''A'')
       (ResponseEntryTimeout (cfg example_consumer))
       (store (example_world [] [FailBefore (OtherError ''io'')]))
     = ((False, Some (OtherError ''io'')), store (example_world [] []))
   \<and> calls (snd (SetResult example_consumer live ''1-0'' ''A''
                     (example_world [] [FailBefore (OtherError ''io'')])))
     = [CmdSetNX ''1-0'' (any_string ''A'') Minute]
   \<and> calls (snd (SetResult example_consumer live ''1-0'' ''A'' (example_world [] [])))
     = [CmdSetNX ''1-0'' (any_string ''A'') Minute, CmdXAck ''default'' ''grp'' [''1-0'']]"
proof -
  have h: "client_SetNX (client example_consumer) live ''1-0'' (any_string ''A'')
       (ResponseEntryTimeout (cfg example_consumer))
       (store (example_world [] [FailBefore (OtherError ''io'')]))
     = ((False, Some (OtherError ''io'')), store (example_world [] []))"
    by (simp add: example_defs)
  have k: "client_SetNX (client example_consumer) live ''1-0'' (any_string ''A'')
       (ResponseEntryTimeout (cfg example_consumer)) (store (example_world [] []))
     = ((True, None),
        (store (example_world [] []))\<lparr>strings := [''1-0'' \<mapsto> (any_string ''A'', Minute)]\<rparr>)"
    by (simp add: example_defs)
  show ?thesis
    using h SetResult_ack_only_after_write [OF h] SetResult_ack_only_after_write [OF k]
    by (simp add: example_defs)
qed

subsection \<open>On the reference store\<close>

lemma redis_SetNX_acquired:
  assumes "redis_SetNX ctx k v e st = ((True, err), st')"
  shows "strings st k = None \<and> err = None \<and> strings st' = (strings st)(k \<mapsto> (v, e))"
  using assms
  by (auto simp: redis_SetNX_def next_fault_def Let_def split: list.splits fault.splits if_splits)

lemma redis_SetNX_present:
  assumes "strings st k = Some x"
  shows "fst (fst (redis_SetNX ctx k v e st)) = False
         \<and> strings (snd (redis_SetNX ctx k v e st)) = strings st"
  using assms
  by (auto simp: redis_SetNX_def next_fault_def Let_def split: list.splits fault.splits)

lemma redis_XAck_strings: "strings (snd (redis_XAck ctx s g ids st)) = strings st"
  by (auto simp: redis_XAck_def next_fault_def Let_def split: list.splits fault.splits)

lemma SetResult_redis_stored:
  assumes cl: "client c = redis_client"
    and run: "SetResult c ctx D r w = (e, w')"
    and ok: "e = None \<or> (\<exists>x. e = Some (Errorf ''acking message: %v, error: %w'' x))"
  shows "strings (store w') D = Some (any_string r, ResponseEntryTimeout (cfg c))"
proof -
  obtain acquired err s1 where
    nx: "redis_SetNX ctx D (any_string r) (ResponseEntryTimeout (cfg c)) (store w) = ((acquired, err), s1)"
    by (metis prod.exhaust)
  then have nx': "client_SetNX (client c) ctx D (any_string r) (ResponseEntryTimeout (cfg c)) (store w)
      = ((acquired, err), s1)"
    by (simp add: cl redis_client_def)
  have acq: "acquired \<and> err = None"
    using run ok by (auto simp: SetResult_eq [OF nx'] split: if_splits)
  then have s1: "strings s1 D = Some (any_string r, ResponseEntryTimeout (cfg c))"
    using redis_SetNX_acquired nx by fastforce
  have "store w' = snd (redis_XAck ctx (RedisStream (cfg c)) (RedisGroup (cfg c)) [D] s1)"
    using run acq by (auto simp: SetResult_eq [OF nx'] cl redis_client_def Let_def split: prod.splits)
  then show ?thesis
    by (simp add: redis_XAck_strings s1)
qed

lemma SetResult_redis_present:
  assumes cl: "client c = redis_client"
    and present: "strings (store w) D = Some x"
  shows "fst (SetResult c ctx D r w) \<noteq> None
       \<and> calls (snd (SetResult c ctx D r w))
           = calls w @ [CmdSetNX D (any_string r) (ResponseEntryTimeout (cfg c))]
       \<and> strings (store (snd (SetResult c ctx D r w))) = strings (store w)"
proof -
  obtain acquired err s1 where
    nx: "redis_SetNX ctx D (any_string r) (ResponseEntryTimeout (cfg c)) (store w) = ((acquired, err), s1)"
    by (metis prod.exhaust)
  then have nx': "client_SetNX (client c) ctx D (any_string r) (ResponseEntryTimeout (cfg c)) (store w)
      = ((acquired, err), s1)"
    by (simp add: cl redis_client_def)
  have "\<not> acquired" and "strings s1 = strings (store w)"
    using redis_SetNX_present [OF present, of ctx "any_string r" "ResponseEntryTimeout (cfg c)"] nx
    by simp_all
  then show ?thesis
    by (simp add: SetResult_eq [OF nx'])
qed

text \<open>
  Claim C2. A call of \<open>SetResult\<close> whose create-only write does not acquire the key, or
  answers with an error, returns a non-nil error and sends the store nothing but that
  write (no acknowledgment). On the reference store, once a call of \<open>SetResult\<close> for \<open>D\<close>
  has returned nil, the result it wrote is stored under \<open>D\<close>, and a second call for \<open>D\<close>
  (by any consumer, with any result, under any faults) returns a non-nil error, sends
  no acknowledgment and leaves the stored result as it was: of two calls for \<open>D\<close>, at
  most one succeeds.
\<close>

theorem SetResult_succeeds_at_most_once:
  "(client_SetNX (client c) ctx D (any_string r) (ResponseEntryTimeout (cfg c)) (store w)
        = ((acquired, err), s1)
      \<and> (err \<noteq> None \<or> \<not> acquired)
    \<longrightarrow> SetResult c ctx D r w =
          (Some (Errorf ''setting result for  message: %v, error: %w'' err),
           w\<lparr>store := s1,
             calls := calls w @ [CmdSetNX D (any_string r) (ResponseEntryTimeout (cfg c))]\<rparr>))
   \<and> (client c1 = redis_client \<and> client c2 = redis_client
      \<and> SetResult c1 ctx1 D r1 w1 = (None, w2)
    \<longrightarrow> strings (store w2) D = Some (any_string r1, ResponseEntryTimeout (cfg c1))
        \<and> fst (SetResult c2 ctx2 D r2 w2) \<noteq> None
        \<and> calls (snd (SetResult c2 ctx2 D r2 w2))
            = calls w2 @ [CmdSetNX D (any_string r2) (ResponseEntryTimeout (cfg c2))]
        \<and> strings (store (snd (SetResult c2 ctx2 D r2 w2))) D
            = Some (any_string r1, ResponseEntryTimeout (cfg c1)))"
proof (intro conjI impI)
  assume "client_SetNX (client c) ctx D (any_string r) (ResponseEntryTimeout (cfg c)) (store w)
        = ((acquired, err), s1) \<and> (err \<noteq> None \<or> \<not> acquired)"
  then show "SetResult c ctx D r w =
          (Some (Errorf ''setting result for  message: %v, error: %w'' err),
           w\<lparr>store := s1,
             calls := calls w @ [CmdSetNX D (any_string r) (ResponseEntryTimeout (cfg c))]\<rparr>)"
    using SetResult_eq [of c ctx D r w acquired err s1] by auto
next
  assume a: "client c1 = redis_client \<and> client c2 = redis_client
      \<and> SetResult c1 ctx1 D r1 w1 = (None, w2)"
  then have st: "strings (store w2) D = Some (any_string r1, ResponseEntryTimeout (cfg c1))"
    using SetResult_redis_stored [of c1 ctx1 D r1 w1 None w2] by simp
  show "strings (store w2) D = Some (any_string r1, ResponseEntryTimeout (cfg c1))"
    by (rule st)
  from a have c2: "client c2 = redis_client" by simp
  note p = SetResult_redis_present [OF c2 st, of ctx2 r2]
  show "fst (SetResult c2 ctx2 D r2 w2) \<noteq> None" using p by simp
  show "calls (snd (SetResult c2 ctx2 D r2 w2))
            = calls w2 @ [CmdSetNX D (any_string r2) (ResponseEntryTimeout (cfg c2))]"
    using p by simp
  show "strings (store (snd (SetResult c2 ctx2 D r2 w2))) D
            = Some (any_string r1, ResponseEntryTimeout (cfg c1))"
    using p st by simp
qed

theorem SetResult_succeeds_at_most_once_witness:
  "client_SetNX (client example_consumer) cancelled ''1-0'' (any_string ''A'')
       (ResponseEntryTimeout (cfg example_consumer))
       (store (example_world [] [FailAfter context_Canceled]))
     = ((False, Some context_Canceled),
        (store (example_world [] []))\<lparr>strings := [''1-0'' \<mapsto> (any_string ''A'', Minute)]\<rparr>)
   \<and> SetResult example_consumer cancelled ''1-0'' ''A'' (example_world [] [FailAfter context_Canceled])
     = (Some (Errorf ''setting result for  message: %v, error: %w'' (Some context_Canceled)),
        \<lparr>store = \<lparr>strings = [''1-0'' \<mapsto> (any_string ''A'', Minute)], undelivered = [],
                  pending = [''1-0''], faults = []\<rparr>,
         calls = [CmdSetNX ''1-0'' (any_string ''A'') Minute], logs = [],
         clock = 1700000000000\<rparr>)
   \<and> SetResult example_consumer live ''1-0'' ''A'' (example_world [] [])
     = (None,
        \<lparr>store = \<lparr>strings = [''1-0'' \<mapsto> (any_string ''A'', Minute)], undelivered = [],
                  pending = [], faults = []\<rparr>,
         calls = [CmdSetNX ''1-0'' (any_string ''A'') Minute, CmdXAck ''default'' ''grp'' [''1-0'']],
         logs = [], clock = 1700000000000\<rparr>)
   \<and> fst (SetResult example_consumer live ''1-0'' ''B''
        \<lparr>store = \<lparr>strings = [''1-0'' \<mapsto> (any_string ''A'', Minute)], undelivered = [],
                  pending = [], faults = []\<rparr>,
         calls = [CmdSetNX ''1-0'' (any_string ''A'') Minute, CmdXAck ''default'' ''grp'' [''1-0'']],
         logs = [], clock = 1700000000000\<rparr>) \<noteq> None
   \<and> strings (store (snd (SetResult example_consumer live ''1-0'' ''B''
        \<lparr>store = \<lparr>strings = [''1-0'' \<mapsto> (any_string ''A'', Minute)], undelivered = [],
                  pending = [], faults = []\<rparr>,
         calls = [CmdSetNX ''1-0'' (any_string ''A'') Minute, CmdXAck ''default'' ''grp'' [''1-0'']],
         logs = [], clock = 1700000000000\<rparr>))) ''1-0''
     = Some (any_string ''A'', Minute)"
proof -
  have h: "client_SetNX (client example_consumer) cancelled ''1-0'' (any_string ''A'')
       (ResponseEntryTimeout (cfg example_consumer))
       (store (example_world [] [FailAfter context_Canceled]))
     = ((False, Some context_Canceled),
        (store (example_world [] []))\<lparr>strings := [''1-0'' \<mapsto> (any_string ''A'', Minute)]\<rparr>)"
    by (simp add: example_defs)
  have k: "SetResult example_consumer live ''1-0'' ''A'' (example_world [] [])
     = (None,
        \<lparr>store = \<lparr>strings = [''1-0'' \<mapsto> (any_string ''A'', Minute)], undelivered = [],
                  pending = [], faults = []\<rparr>,
         calls = [CmdSetNX ''1-0'' (any_string ''A'') Minute, CmdXAck ''default'' ''grp'' [''1-0'']],
         logs = [], clock = 1700000000000\<rparr>)"
    by (simp add: SetResult_def do_SetNX_def do_XAck_def example_defs)
  have c: "client example_consumer = redis_client"
    by (simp add: example_consumer_def)
  note t = SetResult_succeeds_at_most_once
    [where c = example_consumer and ctx = cancelled and r = "''A''"
       and w = "example_world [] [FailAfter context_Canceled]"
       and ?c1.0 = example_consumer and ?c2.0 = example_consumer
       and ?ctx1.0 = live and ?ctx2.0 = live and D = "''1-0''"
       and ?r1.0 = "''A''" and ?r2.0 = "''B''" and ?w1.0 = "example_world [] []"]
  show ?thesis
    using h k c t [THEN conjunct1, rule_format, OF conjI, OF h]
      t [THEN conjunct2, rule_format, OF conjI, OF c conjI, OF c k]
    by (simp add: example_defs)
qed

text \<open>
  Claim C6. When the create-only write succeeds and the acknowledgment then fails with
  error \<open>e\<close>, \<open>SetResult\<close> returns the non-nil error wrapping \<open>e\<close>; the commands it sent are
  the write and the acknowledgment and nothing else (no deletion, no rollback), and
  the store is left as the acknowledgment left it. On the reference store the result
  is then still stored under the delivery identifier.
\<close>

theorem SetResult_ack_failure_keeps_result:
  "(client_SetNX (client c) ctx D (any_string r) (ResponseEntryTimeout (cfg c)) (store w)
        = ((True, None), s1)
      \<and> client_XAck (client c) ctx (RedisStream (cfg c)) (RedisGroup (cfg c)) [D] s1
        = ((n, Some e), s2)
    \<longrightarrow> SetResult c ctx D r w =
          (Some (Errorf ''acking message: %v, error: %w'' (Some e)),
           w\<lparr>store := s2,
             calls := calls w @ [CmdSetNX D (any_string r) (ResponseEntryTimeout (cfg c)),
                                 CmdXAck (RedisStream (cfg c)) (RedisGroup (cfg c)) [D]]\<rparr>))
   \<and> (client c' = redis_client
      \<and> SetResult c' ctx' D' r' w' = (Some (Errorf ''acking message: %v, error: %w'' e'), w'')
    \<longrightarrow> strings (store w'') D' = Some (any_string r', ResponseEntryTimeout (cfg c')))"
proof (intro conjI impI)
  assume "client_SetNX (client c) ctx D (any_string r) (ResponseEntryTimeout (cfg c)) (store w)
        = ((True, None), s1)
      \<and> client_XAck (client c) ctx (RedisStream (cfg c)) (RedisGroup (cfg c)) [D] s1
        = ((n, Some e), s2)"
  then show "SetResult c ctx D r w =
          (Some (Errorf ''acking message: %v, error: %w'' (Some e)),
           w\<lparr>store := s2,
             calls := calls w @ [CmdSetNX D (any_string r) (ResponseEntryTimeout (cfg c)),
                                 CmdXAck (RedisStream (cfg c)) (RedisGroup (cfg c)) [D]]\<rparr>)"
    using SetResult_eq [of c ctx D r w True None s1] by simp
next
  assume "client c' = redis_client
      \<and> SetResult c' ctx' D' r' w' = (Some (Errorf ''acking message: %v, error: %w'' e'), w'')"
  then show "strings (store w'') D' = Some (any_string r', ResponseEntryTimeout (cfg c'))"
    using SetResult_redis_stored [of c' ctx' D' r' w' _ w''] by blast
qed

theorem SetResult_ack_failure_keeps_result_witness:
  "SetResult example_consumer live ''1-0'' ''A''
       (example_world [] [NoFault, FailBefore (OtherError ''io'')])
     = (Some (Errorf ''acking message: %v, error: %w'' (Some (OtherError ''io''))),
        \<lparr>store = \<lparr>strings = [''1-0'' \<mapsto> (any_string ''A'', Minute)], undelivered = [],
                  pending = [''1-0''], faults = []\<rparr>,
         calls = [CmdSetNX ''1-0'' (any_string ''A'') Minute, CmdXAck ''default'' ''grp'' [''1-0'']],
         logs = [], clock = 1700000000000\<rparr>)
   \<and> strings (store (snd (SetResult example_consumer live ''1-0'' ''A''
       (example_world [] [NoFault, FailBefore (OtherError ''io'')])))) ''1-0''
     = Some (any_string ''A'', Minute)"
proof -
  have h: "client_SetNX (client example_consumer) live ''1-0'' (any_string ''A'')
       (ResponseEntryTimeout (cfg example_consumer))
       (store (example_world [] [NoFault, FailBefore (OtherError ''io'')]))
     = ((True, None),
        \<lparr>strings = [''1-0'' \<mapsto> (any_string ''A'', Minute)], undelivered = [],
         pending = [''1-0''], faults = [FailBefore (OtherError ''io'')]\<rparr>)"
    by (simp add: example_defs)
  have k: "client_XAck (client example_consumer) live (RedisStream (cfg example_consumer))
       (RedisGroup (cfg example_consumer)) [''1-0'']
        \<lparr>strings = [''1-0'' \<mapsto> (any_string ''A'', Minute)], undelivered = [],
         pending = [''1-0''], faults = [FailBefore (OtherError ''io'')]\<rparr>
     = ((0, Some (OtherError ''io'')),
        \<lparr>strings = [''1-0'' \<mapsto> (any_string ''A'', Minute)], undelivered = [],
         pending = [''1-0''], faults = []\<rparr>)"
    by (simp add: example_defs)
  have c: "client example_consumer = redis_client"
    by (simp add: example_consumer_def)
  note t = SetResult_ack_failure_keeps_result
    [where c = example_consumer and ctx = live and D = "''1-0''" and r = "''A''"
       and w = "example_world [] [NoFault, FailBefore (OtherError ''io'')]"
       and c' = example_consumer and ctx' = live and D' = "''1-0''" and r' = "''A''"
       and w' = "example_world [] [NoFault, FailBefore (OtherError ''io'')]"]
  have r: "SetResult example_consumer live ''1-0'' ''A''
       (example_world [] [NoFault, FailBefore (OtherError ''io'')])
     = (Some (Errorf ''acking message: %v, error: %w'' (Some (OtherError ''io''))),
        \<lparr>store = \<lparr>strings = [''1-0'' \<mapsto> (any_string ''A'', Minute)], undelivered = [],
                  pending = [''1-0''], faults = []\<rparr>,
         calls = [CmdSetNX ''1-0'' (any_string ''A'') Minute, CmdXAck ''default'' ''grp'' [''1-0'']],
         logs = [], clock = 1700000000000\<rparr>)"
    using t [THEN conjunct1, rule_format, OF conjI, OF h k]
    by (simp add: example_defs)
  show ?thesis
    using r t [THEN conjunct2, rule_format, OF conjI, OF c r]
    by simp
qed

section \<open>Consume\<close>

text \<open>\<open>Consume\<close> in terms of the answer of the group read; no branch panics.\<close>

lemma Consume_eq:
  assumes "client_XReadGroup (client c) ctx (read_args c) (store w) = ((res, err), s1)"
  shows "Consume messageKey Unmarshal c ctx w =
     (if errors_Is err redis_Nil then (Returns (None, None), after_read c s1 w)
      else if err \<noteq> None then
        (Returns (None, Some (Errorf ''reading message for consumer: %q: %w'' err)), after_read c s1 w)
      else
        (case res of
           [s] \<Rightarrow>
             (case Messages s of
                [m] \<Rightarrow>
                  (case XMessage_Values m messageKey of
                     Some (any_string data) \<Rightarrow>
                       (case Unmarshal data of
                          (val, None) \<Rightarrow>
                            (Returns (Some \<lparr>ID = XMessage_ID m, Value = val\<rparr>, None),
                             write_log (debug_line c m) (after_read c s1 w))
                        | (val, Some e) \<Rightarrow>
                            (Returns (None, Some (Errorf ''unmarshaling value: %v, error: %w'' (Some e))),
                             write_log (debug_line c m) (after_read c s1 w)))
                   | _ \<Rightarrow>
                       (Returns (None, Some (Errorf ''casting request to string: %w'' None)),
                        write_log (debug_line c m) (after_read c s1 w)))
              | _ \<Rightarrow>
                  (Returns (None,
                     Some (Errorf ''redis returned entries: %+v, for querying single message'' None)),
                   after_read c s1 w))
         | _ \<Rightarrow>
             (Returns (None,
                Some (Errorf ''redis returned entries: %+v, for querying single message'' None)),
              after_read c s1 w)))"
  using assms
  by (simp add: Consume_def do_XReadGroup_def Let_def
           split: prod.splits list.splits option.splits any.splits)

text \<open>
  Claim C3. Whatever the store answers to the group read, \<open>Consume\<close> returns exactly one
  of: no message and a nil error, when the answer is the no-data report \<open>redis.Nil\<close>;
  a message and a nil error; no message and a non-nil error. It never returns a
  message together with an error, and a message it returns is never a placeholder:
  the answer was then one stream with one item, the message carries that item's
  identifier and the value the codec decoded, without error, from its payload.
\<close>

theorem Consume_outcomes:
  assumes "client_XReadGroup (client c) ctx (read_args c) (store w) = ((res, err), s1)"
  shows "((errors_Is err redis_Nil \<and> fst (Consume messageKey Unmarshal c ctx w) = Returns (None, None))
        \<or> (\<not> errors_Is err redis_Nil
            \<and> (\<exists>m. fst (Consume messageKey Unmarshal c ctx w) = Returns (Some m, None)))
        \<or> (\<not> errors_Is err redis_Nil
            \<and> (\<exists>e. fst (Consume messageKey Unmarshal c ctx w) = Returns (None, Some e))))
       \<and> (\<forall>m e. fst (Consume messageKey Unmarshal c ctx w) = Returns (Some m, e)
            \<longrightarrow> e = None \<and> err = None
                \<and> (\<exists>s x data. res = [s] \<and> Messages s = [x]
                      \<and> XMessage_Values x messageKey = Some (any_string data)
                      \<and> Unmarshal data = (Value m, None) \<and> ID m = XMessage_ID x))"
  by (auto simp: Consume_eq [OF assms] split: list.splits option.splits any.splits prod.splits)

theorem Consume_outcomes_witness:
  "client_XReadGroup (client example_consumer) live (read_args example_consumer)
       (store (example_world [] []))
     = (([], Some redis_Nil), store (example_world [] []))
   \<and> fst (Consume ''msg'' example_Unmarshal example_consumer live (example_world [] []))
     = Returns (None, None)
   \<and> fst (Consume ''msg'' example_Unmarshal example_consumer live
            (example_world [item ''2-0'' (any_string ''hello'')] []))
     = Returns (Some \<lparr>ID = ''2-0'', Value = ''hello''\<rparr>, None)"
proof -
  have h: "client_XReadGroup (client example_consumer) live (read_args example_consumer)
       (store (example_world [] []))
     = (([], Some redis_Nil), store (example_world [] []))"
    by (simp add: example_defs)
  have n: "errors_Is (Some redis_Nil) redis_Nil"
    by (simp add: errors_Is_def)
  have a: "fst (Consume ''msg'' example_Unmarshal example_consumer live (example_world [] []))
     = Returns (None, None)"
    using Consume_outcomes [OF h, of "''msg''" example_Unmarshal] n by blast
  have k: "client_XReadGroup (client example_consumer) live (read_args example_consumer)
       (store (example_world [item ''2-0'' (any_string ''hello'')] []))
     = (([\<lparr>Stream = ''default'', Messages = [item ''2-0'' (any_string ''hello'')]\<rparr>], None),
        \<lparr>strings = Map.empty, undelivered = [], pending = [''1-0'', ''2-0''], faults = []\<rparr>)"
    by (simp add: example_defs)
  have u: "example_Unmarshal ''hello'' = (''hello'', None)"
    by (simp add: example_Unmarshal_def)
  have v: "XMessage_Values (item ''2-0'' (any_string ''hello'')) ''msg'' = Some (any_string ''hello'')"
    and i: "XMessage_ID (item ''2-0'' (any_string ''hello'')) = ''2-0''"
    by (simp_all add: item_def)
  have b: "fst (Consume ''msg'' example_Unmarshal example_consumer live
            (example_world [item ''2-0'' (any_string ''hello'')] []))
     = Returns (Some \<lparr>ID = ''2-0'', Value = ''hello''\<rparr>, None)"
    by (simp add: Consume_eq [OF k] errors_Is_def u v i)
  show ?thesis
    by (intro conjI) (rule h a b)+
qed

text \<open>
  Claim C4. When the store answers the group read with a response (a nil error) that
  is not exactly one stream holding exactly one item, \<open>Consume\<close> returns no message and
  the non-nil error for a wrong number of entries; when the store answers with an
  error other than the no-data report, it returns no message and the error wrapping
  it, whatever the shape. Hence a message is returned only for a response of one
  stream with one item, and it is that item: never more than one item per call.
\<close>

theorem Consume_shape_error:
  assumes "client_XReadGroup (client c) ctx (read_args c) (store w) = ((res, err), s1)"
  shows "(err = None \<and> \<not> (\<exists>s x. res = [s] \<and> Messages s = [x])
          \<longrightarrow> Consume messageKey Unmarshal c ctx w =
               (Returns (None,
                  Some (Errorf ''redis returned entries: %+v, for querying single message'' None)),
                after_read c s1 w))
       \<and> (err \<noteq> None \<and> \<not> errors_Is err redis_Nil
          \<longrightarrow> Consume messageKey Unmarshal c ctx w =
               (Returns (None, Some (Errorf ''reading message for consumer: %q: %w'' err)),
                after_read c s1 w))
       \<and> (\<forall>m e. fst (Consume messageKey Unmarshal c ctx w) = Returns (Some m, e)
            \<longrightarrow> (\<exists>s x. res = [s] \<and> Messages s = [x] \<and> ID m = XMessage_ID x))"
  by (auto simp: Consume_eq [OF assms] errors_Is_def
           split: list.splits option.splits any.splits prod.splits)

theorem Consume_shape_error_witness:
  "client_XReadGroup (client (canned_consumer ([], None))) live
       (read_args (canned_consumer ([], None))) (store canned_world)
     = (([], None), ())
   \<and> fst (Consume ''msg'' example_Unmarshal (canned_consumer ([], None)) live canned_world)
     = Returns (None,
         Some (Errorf ''redis returned entries: %+v, for querying single message'' None))
   \<and> fst (Consume ''msg'' example_Unmarshal
            (canned_consumer
               ([\<lparr>Stream = ''default'',
                  Messages = [item ''2-0'' (any_string ''a''), item ''3-0'' (any_string ''b'')]\<rparr>],
                None))
            live canned_world)
     = Returns (None,
         Some (Errorf ''redis returned entries: %+v, for querying single message'' None))"
proof -
  have h: "client_XReadGroup (client (canned_consumer ([], None))) live
       (read_args (canned_consumer ([], None))) (store canned_world)
     = (([], None), ())"
    by (simp add: example_defs)
  have k: "client_XReadGroup
       (client (canned_consumer
               ([\<lparr>Stream = ''default'',
                  Messages = [item ''2-0'' (any_string ''a''), item ''3-0'' (any_string ''b'')]\<rparr>],
                None))) live
       (read_args (canned_consumer
               ([\<lparr>Stream = ''default'',
                  Messages = [item ''2-0'' (any_string ''a''), item ''3-0'' (any_string ''b'')]\<rparr>],
                None))) (store canned_world)
     = (([\<lparr>Stream = ''default'',
                  Messages = [item ''2-0'' (any_string ''a''), item ''3-0'' (any_string ''b'')]\<rparr>],
                None), ())"
    by (simp add: example_defs)
  show ?thesis
    using h Consume_shape_error [OF h, of "''msg''" example_Unmarshal]
      Consume_shape_error [OF k, of "''msg''" example_Unmarshal]
    by simp
qed

text \<open>
  Claim C5. When the store's response is one stream with one item whose payload is a
  string that the codec fails to decode with error \<open>e\<close>, \<open>Consume\<close> returns no message and
  the non-nil error wrapping \<open>e\<close>. In every execution the only command \<open>Consume\<close> sends is
  the group read, and the store is left as the read left it: no acknowledgment is sent.
\<close>

theorem Consume_decode_error:
  "(client_XReadGroup (client c) ctx (read_args c) (store w) = (([s], None), s1)
      \<and> Messages s = [x] \<and> XMessage_Values x messageKey = Some (any_string data)
      \<and> Unmarshal data = (v, Some e)
    \<longrightarrow> Consume messageKey Unmarshal c ctx w =
          (Returns (None, Some (Errorf ''unmarshaling value: %v, error: %w'' (Some e))),
           write_log (debug_line c x) (after_read c s1 w)))
   \<and> calls (snd (Consume messageKey Unmarshal c ctx w)) = calls w @ [CmdXReadGroup (read_args c)]
   \<and> store (snd (Consume messageKey Unmarshal c ctx w))
       = snd (client_XReadGroup (client c) ctx (read_args c) (store w))"
proof -
  obtain res err s1' where
    r: "client_XReadGroup (client c) ctx (read_args c) (store w) = ((res, err), s1')"
    by (metis prod.exhaust)
  show ?thesis
    by (auto simp: Consume_eq [OF r] r write_log_def errors_Is_def
             split: list.splits option.splits any.splits prod.splits)
qed

theorem Consume_decode_error_witness:
  "client_XReadGroup (client example_consumer) live (read_args example_consumer)
       (store (example_world [item ''2-0'' (any_string ''bad'')] []))
     = (([\<lparr>Stream = ''default'', Messages = [item ''2-0'' (any_string ''bad'')]\<rparr>], None),
        \<lparr>strings = Map.empty, undelivered = [], pending = [''1-0'', ''2-0''], faults = []\<rparr>)
   \<and> example_Unmarshal ''bad'' = ('''', Some (OtherError ''decode''))
   \<and> fst (Consume ''msg'' example_Unmarshal example_consumer live
            (example_world [item ''2-0'' (any_string ''bad'')] []))
     = Returns (None,
         Some (Errorf ''unmarshaling value: %v, error: %w'' (Some (OtherError ''decode''))))
   \<and> calls (snd (Consume ''msg'' example_Unmarshal example_consumer live
            (example_world [item ''2-0'' (any_string ''bad'')] [])))
     = [CmdXReadGroup (read_args example_consumer)]
   \<and> pending (store (snd (Consume ''msg'' example_Unmarshal example_consumer live
            (example_world [item ''2-0'' (any_string ''bad'')] []))))
     = [''1-0'', ''2-0'']"
proof -
  have h: "client_XReadGroup (client example_consumer) live (read_args example_consumer)
       (store (example_world [item ''2-0'' (any_string ''bad'')] []))
     = (([\<lparr>Stream = ''default'', Messages = [item ''2-0'' (any_string ''bad'')]\<rparr>], None),
        \<lparr>strings = Map.empty, undelivered = [], pending = [''1-0'', ''2-0''], faults = []\<rparr>)"
    by (simp add: example_defs)
  have u: "example_Unmarshal ''bad'' = ('''', Some (OtherError ''decode''))"
    by (simp add: example_Unmarshal_def)
  have m: "Messages \<lparr>Stream = ''default'', Messages = [item ''2-0'' (any_string ''bad'')]\<rparr>
             = [item ''2-0'' (any_string ''bad'')]"
    by simp
  have v: "XMessage_Values (item ''2-0'' (any_string ''bad'')) ''msg'' = Some (any_string ''bad'')"
    by (simp add: item_def)
  note t = Consume_decode_error
    [where c = example_consumer and ctx = live and messageKey = "''msg''"
       and Unmarshal = example_Unmarshal
       and w = "example_world [item ''2-0'' (any_string ''bad'')] []"
       and s = "\<lparr>Stream = ''default'', Messages = [item ''2-0'' (any_string ''bad'')]\<rparr>"
       and x = "item ''2-0'' (any_string ''bad'')" and data = "''bad''" and v = "''''"
       and e = "OtherError ''decode''"]
  have r: "fst (Consume ''msg'' example_Unmarshal example_consumer live
            (example_world [item ''2-0'' (any_string ''bad'')] []))
     = Returns (None,
         Some (Errorf ''unmarshaling value: %v, error: %w'' (Some (OtherError ''decode''))))"
    using t [THEN conjunct1, rule_format, OF conjI [OF h conjI [OF m conjI [OF v u]]]]
    by (rule arg_cong [where f = fst, THEN trans]) simp
  have c0: "calls (example_world [item ''2-0'' (any_string ''bad'')] []) = []"
    by (simp add: example_world_def)
  have c: "calls (snd (Consume ''msg'' example_Unmarshal example_consumer live
            (example_world [item ''2-0'' (any_string ''bad'')] [])))
     = [CmdXReadGroup (read_args example_consumer)]"
    using t [THEN conjunct2, THEN conjunct1] by (simp only: c0 append_Nil)
  have p: "pending (store (snd (Consume ''msg'' example_Unmarshal example_consumer live
            (example_world [item ''2-0'' (any_string ''bad'')] []))))
     = [''1-0'', ''2-0'']"
    by (simp only: t [THEN conjunct2, THEN conjunct2] h snd_conv redis.simps)
  show ?thesis
    by (intro conjI) (rule h u r c p)+
qed

text \<open>
  Claim C10. When the store's response is one stream with one item whose value under
  the message key is absent or not a string, \<open>Consume\<close> returns no message and a non-nil
  error, built by \<open>fmt.Errorf\<close> with a nil operand for \<open>%w\<close>; it does not panic there, nor
  anywhere else.
\<close>

theorem Consume_not_a_string:
  "(client_XReadGroup (client c) ctx (read_args c) (store w) = (([s], None), s1)
      \<and> Messages s = [x] \<and> (\<forall>data. XMessage_Values x messageKey \<noteq> Some (any_string data))
    \<longrightarrow> Consume messageKey Unmarshal c ctx w =
          (Returns (None, Some (Errorf ''casting request to string: %w'' None)),
           write_log (debug_line c x) (after_read c s1 w)))
   \<and> fst (Consume messageKey Unmarshal c ctx w) \<noteq> Panics"
proof -
  obtain res err s1' where
    r: "client_XReadGroup (client c) ctx (read_args c) (store w) = ((res, err), s1')"
    by (metis prod.exhaust)
  show ?thesis
    by (auto simp: Consume_eq [OF r] r errors_Is_def
             split: list.splits option.splits any.splits prod.splits)
qed

theorem Consume_not_a_string_witness:
  "client_XReadGroup (client example_consumer) live (read_args example_consumer)
       (store (example_world [item ''2-0'' (any_int64 7)] []))
     = (([\<lparr>Stream = ''default'', Messages = [item ''2-0'' (any_int64 7)]\<rparr>], None),
        \<lparr>strings = Map.empty, undelivered = [], pending = [''1-0'', ''2-0''], faults = []\<rparr>)
   \<and> fst (Consume ''msg'' example_Unmarshal example_consumer live
            (example_world [item ''2-0'' (any_int64 7)] []))
     = Returns (None, Some (Errorf ''casting request to string: %w'' None))
   \<and> fst (Consume ''absent'' example_Unmarshal example_consumer live
            (example_world [item ''2-0'' (any_int64 7)] []))
     = Returns (None, Some (Errorf ''casting request to string: %w'' None))"
proof -
  have h: "client_XReadGroup (client example_consumer) live (read_args example_consumer)
       (store (example_world [item ''2-0'' (any_int64 7)] []))
     = (([\<lparr>Stream = ''default'', Messages = [item ''2-0'' (any_int64 7)]\<rparr>], None),
        \<lparr>strings = Map.empty, undelivered = [], pending = [''1-0'', ''2-0''], faults = []\<rparr>)"
    by (simp add: example_defs)
  note t = Consume_not_a_string
    [where c = example_consumer and ctx = live and Unmarshal = example_Unmarshal
       and w = "example_world [item ''2-0'' (any_int64 7)] []"
       and s = "\<lparr>Stream = ''default'', Messages = [item ''2-0'' (any_int64 7)]\<rparr>"
       and x = "item ''2-0'' (any_int64 7)"]
  show ?thesis
    using h t [where messageKey = "''msg''"] t [where messageKey = "''absent''"]
    by (simp add: item_def)
qed

section \<open>heartBeat and Start\<close>

lemma heartBeatKey_eq: "heartBeatKey i = ''consumer:'' @ i @ '':heartbeat''"
  by (simp add: heartBeatKey_def)

lemma heartBeat_eq:
  assumes "client_Set (client c) ctx (heartBeatKey (id_consumer c)) (any_int64 (clock w))
             (2 * KeepAliveTimeout (cfg c)) (store w) = (err, s1)"
  shows "heartBeat c ctx w =
     (let w1 = w\<lparr>store := s1,
                 calls := calls w @ [CmdSet (heartBeatKey (id_consumer c)) (any_int64 (clock w))
                                       (2 * KeepAliveTimeout (cfg c))]\<rparr>
      in if err = None then w1
         else w1\<lparr>logs := logs w @
                  [Log (if ctx_Err ctx \<noteq> None then Error else Info) ''Updating heardbeat''
                     [''consumer'', id_consumer c, ''error''] err]\<rparr>)"
  using assms
  by (simp add: heartBeat_def do_Set_def write_log_def Let_def)

lemma sint_double:
  fixes K :: Duration
  assumes "- (2 ^ 62) \<le> sint K" and "sint K < 2 ^ 62"
  shows "sint (2 * K) = 2 * sint K"
proof -
  have "sint (2 * K) = signed_take_bit 63 (2 * sint K)"
    by (simp add: sint_word_ariths)
  also have "\<dots> = 2 * sint K"
    using assms by (intro signed_take_bit_int_eq_self) auto
  finally show ?thesis .
qed

lemma sdiv_ten_bounds:
  fixes k :: int
  assumes "- (2 ^ 63) \<le> k" and "k < 2 ^ 63"
  shows "- (2 ^ 63) \<le> k sdiv 10 \<and> k sdiv 10 < 2 ^ 63"
proof (cases "0 \<le> k")
  case True
  then have "k sdiv 10 = k div 10"
    by (auto simp: signed_divide_int_def sgn_if)
  moreover have "0 \<le> k div 10 \<and> k div 10 \<le> k"
    using True by presburger
  ultimately show ?thesis using assms by auto
next
  case False
  then have e: "k sdiv 10 = - ((- k) div 10)"
    by (auto simp: signed_divide_int_def sgn_if)
  have "0 \<le> (- k) div 10 \<and> (- k) div 10 \<le> - k"
    using False by presburger
  then show ?thesis using assms e by auto
qed

lemma sint_go_div_ten:
  fixes K :: Duration
  shows "sint (go_div K 10) = sint K sdiv 10"
proof -
  have b: "- (2 ^ 63) \<le> sint K" "sint K < 2 ^ 63"
    using sint_ge [of K] sint_lt [of K] by simp_all
  have "sint (go_div K 10) = signed_take_bit 63 (sint K sdiv 10)"
    by (simp add: go_div_def sint_sbintrunc')
  also have "\<dots> = sint K sdiv 10"
    using sdiv_ten_bounds [OF b] by (intro signed_take_bit_int_eq_self) auto
  finally show ?thesis .
qed

lemma redis_Set_stored:
  assumes "\<forall>e. fst (next_fault st) \<noteq> FailBefore e"
  shows "strings (snd (redis_Set ctx k v x st)) k = Some (v, x)"
  using assms
  by (auto simp: redis_Set_def next_fault_def Let_def split: list.splits fault.splits)

text \<open>
  Claim C7. The heartbeat key of consumer \<open>i\<close> is \<open>consumer:\<close> followed by \<open>i\<close> followed by
  \<open>:heartbeat\<close>. For every keep-alive interval \<open>K\<close>, a heartbeat runs the client's write
  of that key once, with the clock's epoch milliseconds as value and the \<open>int64\<close> product
  \<open>2 * K\<close> as expiry: the store is left as that write leaves it, the write is the only
  command sent, and on the reference store the key then holds that value and expiry
  unless the write failed before taking effect. The expiry is the integer \<open>2K\<close> when
  \<open>- 2 ^ 62 \<le> K < 2 ^ 62\<close> nanoseconds. The function handed to the scheduler runs one
  heartbeat and returns \<open>K / 10\<close>, the integer quotient truncated towards zero.
\<close>

theorem heartBeat_record:
  "heartBeatKey i = ''consumer:'' @ i @ '':heartbeat''
   \<and> store (heartBeat c ctx w) =
       snd (client_Set (client c) ctx (heartBeatKey (id_consumer c)) (any_int64 (clock w))
              (2 * KeepAliveTimeout (cfg c)) (store w))
   \<and> calls (heartBeat c ctx w) =
       calls w @ [CmdSet (heartBeatKey (id_consumer c)) (any_int64 (clock w))
                    (2 * KeepAliveTimeout (cfg c))]
   \<and> (client c' = redis_client \<and> (\<forall>e. fst (next_fault (store w')) \<noteq> FailBefore e)
      \<longrightarrow> strings (store (heartBeat c' ctx' w')) (heartBeatKey (id_consumer c'))
          = Some (any_int64 (clock w'), 2 * KeepAliveTimeout (cfg c')))
   \<and> (- (2 ^ 62) \<le> sint (KeepAliveTimeout (cfg c)) \<and> sint (KeepAliveTimeout (cfg c)) < 2 ^ 62
      \<longrightarrow> sint (2 * KeepAliveTimeout (cfg c)) = 2 * sint (KeepAliveTimeout (cfg c)))
   \<and> Start_callback c ctx w = (go_div (KeepAliveTimeout (cfg c)) 10, heartBeat c ctx w)
   \<and> sint (go_div (KeepAliveTimeout (cfg c)) 10) = sint (KeepAliveTimeout (cfg c)) sdiv 10"
proof -
  obtain err s1 where
    r: "client_Set (client c) ctx (heartBeatKey (id_consumer c)) (any_int64 (clock w))
             (2 * KeepAliveTimeout (cfg c)) (store w) = (err, s1)"
    by (metis prod.exhaust)
  have st: "store (heartBeat c ctx w) =
       snd (client_Set (client c) ctx (heartBeatKey (id_consumer c)) (any_int64 (clock w))
              (2 * KeepAliveTimeout (cfg c)) (store w))"
    by (simp add: heartBeat_eq [OF r] r Let_def)
  have ca: "calls (heartBeat c ctx w) =
       calls w @ [CmdSet (heartBeatKey (id_consumer c)) (any_int64 (clock w))
                    (2 * KeepAliveTimeout (cfg c))]"
    by (simp add: heartBeat_eq [OF r] Let_def)
  have rs: "strings (store (heartBeat c' ctx' w')) (heartBeatKey (id_consumer c'))
          = Some (any_int64 (clock w'), 2 * KeepAliveTimeout (cfg c'))"
    if cl: "client c' = redis_client" and nf: "\<forall>e. fst (next_fault (store w')) \<noteq> FailBefore e"
  proof -
    obtain err' s1' where
      r': "client_Set (client c') ctx' (heartBeatKey (id_consumer c')) (any_int64 (clock w'))
             (2 * KeepAliveTimeout (cfg c')) (store w') = (err', s1')"
      by (metis prod.exhaust)
    have "store (heartBeat c' ctx' w') = s1'"
      by (simp add: heartBeat_eq [OF r'] Let_def)
    moreover have "s1' = snd (redis_Set ctx' (heartBeatKey (id_consumer c')) (any_int64 (clock w'))
             (2 * KeepAliveTimeout (cfg c')) (store w'))"
      using r' by (simp add: cl redis_client_def)
    ultimately show ?thesis
      by (simp add: redis_Set_stored [OF nf])
  qed
  have sc: "Start_callback c ctx w = (go_div (KeepAliveTimeout (cfg c)) 10, heartBeat c ctx w)"
    by (simp add: Start_callback_def Let_def)
  show ?thesis
    using heartBeatKey_eq st ca rs sc sint_go_div_ten sint_double by blast
qed

theorem heartBeat_record_witness:
  "heartBeatKey ''c1'' = ''consumer:c1:heartbeat''
   \<and> strings (store (heartBeat example_consumer live (example_world [] []))) ''consumer:c1:heartbeat''
     = Some (any_int64 1700000000000, 60000000)
   \<and> calls (heartBeat example_consumer live (example_world [] []))
     = [CmdSet ''consumer:c1:heartbeat'' (any_int64 1700000000000) 60000000]
   \<and> fst (Start_callback example_consumer live (example_world [] [])) = 3000000
   \<and> - (2 ^ 62) \<le> sint (KeepAliveTimeout (cfg example_consumer))
   \<and> sint (KeepAliveTimeout (cfg example_consumer)) < 2 ^ 62
   \<and> sint (2 * KeepAliveTimeout (cfg example_consumer)) = 60000000"
proof -
  have K: "KeepAliveTimeout (cfg example_consumer) = 30000000"
    by (simp add: example_consumer_def example_cfg_def DefaultTestConsumerConfig_def Millisecond_def)
  have s: "sint (30000000 :: Duration) = 30000000"
    by simp
  have d: "go_div (30000000 :: Duration) 10 = 3000000"
    by (simp add: go_div_def signed_divide_int_def)
  have i: "id_consumer example_consumer = ''c1''"
    by (simp add: example_consumer_def)
  have w: "calls (example_world [] []) = []" "clock (example_world [] []) = 1700000000000"
    by (simp_all add: example_world_def)
  have cl: "client example_consumer = redis_client"
    by (simp add: example_consumer_def)
  have nf: "\<forall>e. fst (next_fault (store (example_world [] []))) \<noteq> FailBefore e"
    by (simp add: example_world_def next_fault_def)
  note t = heartBeat_record
    [where i = "''c1''" and c = example_consumer and ctx = live and w = "example_world [] []"
       and c' = example_consumer and ctx' = live and w' = "example_world [] []"]
  have k: "heartBeatKey ''c1'' = ''consumer:c1:heartbeat''"
    using t [THEN conjunct1] by simp
  have a: "strings (store (heartBeat example_consumer live (example_world [] []))) ''consumer:c1:heartbeat''
     = Some (any_int64 1700000000000, 60000000)"
    using t [THEN conjunct2, THEN conjunct2, THEN conjunct2, THEN conjunct1, rule_format,
             OF conjI [OF cl nf]]
    by (simp add: K i w k)
  have b: "calls (heartBeat example_consumer live (example_world [] []))
     = [CmdSet ''consumer:c1:heartbeat'' (any_int64 1700000000000) 60000000]"
    using t [THEN conjunct2, THEN conjunct2, THEN conjunct1]
    by (simp add: K i w k)
  have c: "fst (Start_callback example_consumer live (example_world [] [])) = 3000000"
    by (simp add: Start_callback_def K d)
  have lo: "- (2 ^ 62) \<le> sint (KeepAliveTimeout (cfg example_consumer))"
    and hi: "sint (KeepAliveTimeout (cfg example_consumer)) < 2 ^ 62"
    and e: "sint (2 * KeepAliveTimeout (cfg example_consumer)) = 60000000"
    by (simp_all add: K)
  show ?thesis
    by (intro conjI) (rule k a b c lo hi e)+
qed

text \<open>
  Without the bound the expiry is not the integer \<open>2K\<close>: with a keep-alive interval of
  \<open>2 ^ 62\<close> nanoseconds the product wraps, and the heartbeat writes the key with the
  expiry \<open>- 2 ^ 63\<close> nanoseconds.
\<close>

theorem heartBeat_expiry_wraps_counterexample:
  "sint (KeepAliveTimeout (cfg long_consumer)) = 4611686018427387904
   \<and> calls (heartBeat long_consumer live (example_world [] []))
     = [CmdSet ''consumer:c1:heartbeat'' (any_int64 1700000000000) 9223372036854775808]
   \<and> strings (store (heartBeat long_consumer live (example_world [] []))) ''consumer:c1:heartbeat''
     = Some (any_int64 1700000000000, 9223372036854775808)
   \<and> sint (9223372036854775808 :: Duration) = - 9223372036854775808
   \<and> sint (9223372036854775808 :: Duration) \<noteq> 2 * sint (KeepAliveTimeout (cfg long_consumer))"
proof -
  have K: "KeepAliveTimeout (cfg long_consumer) = 4611686018427387904"
    by (simp add: long_consumer_def)
  have s: "sint (4611686018427387904 :: Duration) = 4611686018427387904"
    by simp
  have m: "2 * (4611686018427387904 :: Duration) = 9223372036854775808"
    by simp
  have n: "sint (9223372036854775808 :: Duration) = - 9223372036854775808"
    by simp
  have i: "id_consumer long_consumer = ''c1''" "client long_consumer = redis_client"
    by (simp_all add: long_consumer_def example_consumer_def)
  have h: "heartBeat long_consumer live (example_world [] []) =
      \<lparr>store = \<lparr>strings = [''consumer:c1:heartbeat'' \<mapsto> (any_int64 1700000000000, 9223372036854775808)],
                undelivered = [], pending = [''1-0''], faults = []\<rparr>,
       calls = [CmdSet ''consumer:c1:heartbeat'' (any_int64 1700000000000) 9223372036854775808],
       logs = [], clock = 1700000000000\<rparr>"
    by (simp add: heartBeat_def do_Set_def heartBeatKey_eq K i m redis_client_def redis_Set_def
          next_fault_def example_world_def)
  have a: "sint (KeepAliveTimeout (cfg long_consumer)) = 4611686018427387904"
    by (simp add: K)
  have b: "calls (heartBeat long_consumer live (example_world [] []))
     = [CmdSet ''consumer:c1:heartbeat'' (any_int64 1700000000000) 9223372036854775808]"
    by (simp add: h)
  have c: "strings (store (heartBeat long_consumer live (example_world [] []))) ''consumer:c1:heartbeat''
     = Some (any_int64 1700000000000, 9223372036854775808)"
    by (simp add: h)
  have d: "sint (9223372036854775808 :: Duration) \<noteq> 2 * sint (KeepAliveTimeout (cfg long_consumer))"
    by (simp add: K)
  show ?thesis
    by (intro conjI) (rule a b c n d)+
qed

text \<open>
  Claim C8. Whatever the store answers to the liveness write, \<open>heartBeat\<close> returns (it
  has no error result and no branch that panics): a failed write adds one log line,
  at level \<open>Error\<close> when \<open>ctx.Err()\<close> is non-nil and at level \<open>Info\<close> otherwise, and a
  successful write adds none, so an \<open>Error\<close> line is written exactly when the write
  failed and the context is cancelled. The state is left as the write left it, and
  the interval returned to the scheduler is \<open>K / 10\<close> in every case.
\<close>

theorem heartBeat_failure_not_fatal:
  assumes "client_Set (client c) ctx (heartBeatKey (id_consumer c)) (any_int64 (clock w))
             (2 * KeepAliveTimeout (cfg c)) (store w) = (err, s1)"
  shows "logs (heartBeat c ctx w) =
           logs w @ (if err = None then []
                     else [Log (if ctx_Err ctx \<noteq> None then Error else Info) ''Updating heardbeat''
                             [''consumer'', id_consumer c, ''error''] err])
       \<and> ((\<exists>m a e. Log Error m a e \<in> set (drop (length (logs w)) (logs (heartBeat c ctx w))))
            \<longleftrightarrow> err \<noteq> None \<and> ctx_Err ctx \<noteq> None)
       \<and> store (heartBeat c ctx w) = s1
       \<and> Start_callback c ctx w = (go_div (KeepAliveTimeout (cfg c)) 10, heartBeat c ctx w)"
  by (auto simp: heartBeat_eq [OF assms] Start_callback_def Let_def)

theorem heartBeat_failure_not_fatal_witness:
  "client_Set (client example_consumer) cancelled (heartBeatKey (id_consumer example_consumer))
       (any_int64 (clock (example_world [] [FailBefore context_Canceled])))
       (2 * KeepAliveTimeout (cfg example_consumer))
       (store (example_world [] [FailBefore context_Canceled]))
     = (Some context_Canceled, store (example_world [] []))
   \<and> logs (heartBeat example_consumer cancelled (example_world [] [FailBefore context_Canceled]))
     = [Log Error ''Updating heardbeat'' [''consumer'', ''c1'', ''error''] (Some context_Canceled)]
   \<and> logs (heartBeat example_consumer live (example_world [] [FailBefore (OtherError ''io'')]))
     = [Log Info ''Updating heardbeat'' [''consumer'', ''c1'', ''error''] (Some (OtherError ''io''))]
   \<and> fst (Start_callback example_consumer cancelled (example_world [] [FailBefore context_Canceled]))
     = 3 * Millisecond"
proof -
  have h: "client_Set (client example_consumer) cancelled (heartBeatKey (id_consumer example_consumer))
       (any_int64 (clock (example_world [] [FailBefore context_Canceled])))
       (2 * KeepAliveTimeout (cfg example_consumer))
       (store (example_world [] [FailBefore context_Canceled]))
     = (Some context_Canceled, store (example_world [] []))"
    by (simp add: example_defs)
  have k: "client_Set (client example_consumer) live (heartBeatKey (id_consumer example_consumer))
       (any_int64 (clock (example_world [] [FailBefore (OtherError ''io'')])))
       (2 * KeepAliveTimeout (cfg example_consumer))
       (store (example_world [] [FailBefore (OtherError ''io'')]))
     = (Some (OtherError ''io''), store (example_world [] []))"
    by (simp add: example_defs)
  have K: "KeepAliveTimeout (cfg example_consumer) = 30000000"
    by (simp add: example_consumer_def example_cfg_def DefaultTestConsumerConfig_def Millisecond_def)
  have d: "go_div (30000000 :: Duration) 10 = 3 * Millisecond"
    by (simp add: go_div_def Millisecond_def signed_divide_int_def)
  have i: "id_consumer example_consumer = ''c1''"
    by (simp add: example_consumer_def)
  have l: "logs (example_world [] [FailBefore context_Canceled]) = []"
    "logs (example_world [] [FailBefore (OtherError ''io'')]) = []"
    "ctx_Err cancelled = Some context_Canceled" "ctx_Err live = None"
    by (simp_all add: example_world_def cancelled_def live_def)
  have a: "logs (heartBeat example_consumer cancelled (example_world [] [FailBefore context_Canceled]))
     = [Log Error ''Updating heardbeat'' [''consumer'', ''c1'', ''error''] (Some context_Canceled)]"
    using heartBeat_failure_not_fatal [OF h, THEN conjunct1] by (simp add: i l)
  have b: "logs (heartBeat example_consumer live (example_world [] [FailBefore (OtherError ''io'')]))
     = [Log Info ''Updating heardbeat'' [''consumer'', ''c1'', ''error''] (Some (OtherError ''io''))]"
    using heartBeat_failure_not_fatal [OF k, THEN conjunct1] by (simp add: i l)
  have c: "fst (Start_callback example_consumer cancelled (example_world [] [FailBefore context_Canceled]))
     = 3 * Millisecond"
    using heartBeat_failure_not_fatal [OF h, THEN conjunct2, THEN conjunct2, THEN conjunct2]
    by (simp add: K d)
  show ?thesis
    by (intro conjI) (rule h a b c)+
qed

section \<open>NewConsumer\<close>

text \<open>
  Claim C9. With an empty store address \<open>NewConsumer\<close> returns no consumer and the error
  "redis url cannot be empty". It returns a consumer exactly when the address is
  non-empty and \<open>RedisClientFromURL\<close> reports no error; it returns no consumer exactly
  when it returns a non-nil error; and the consumer it returns holds the drawn
  identifier, the client obtained and the configuration given.
\<close>

theorem NewConsumer_requires_url:
  "(RedisURL config = ''''
      \<longrightarrow> NewConsumer RedisClientFromURL uuid ctx config =
           (None, Some (Errorf ''redis url cannot be empty'' None)))
   \<and> ((\<exists>cons. fst (NewConsumer RedisClientFromURL uuid ctx config) = Some cons)
        \<longleftrightarrow> RedisURL config \<noteq> '''' \<and> snd (RedisClientFromURL (RedisURL config)) = None)
   \<and> (fst (NewConsumer RedisClientFromURL uuid ctx config) = None
        \<longleftrightarrow> snd (NewConsumer RedisClientFromURL uuid ctx config) \<noteq> None)
   \<and> (\<forall>cons. fst (NewConsumer RedisClientFromURL uuid ctx config) = Some cons
        \<longrightarrow> cons = \<lparr>id_consumer = uuid, client = fst (RedisClientFromURL (RedisURL config)),
                     cfg = config\<rparr>)"
  by (auto simp: NewConsumer_def Let_def split: prod.splits)

theorem NewConsumer_requires_url_witness:
  "RedisURL (DefaultTestConsumerConfig ''grp'') = ''''
   \<and> NewConsumer (\<lambda>url. (redis_client, None)) ''c1'' live (DefaultTestConsumerConfig ''grp'')
     = (None, Some (Errorf ''redis url cannot be empty'' None))
   \<and> NewConsumer (\<lambda>url. (redis_client, None)) ''c1'' live example_cfg
     = (Some example_consumer, None)
   \<and> NewConsumer (\<lambda>url. (redis_client, Some (OtherError ''invalid URL''))) ''c1'' live example_cfg
     = (None, Some (OtherError ''invalid URL''))"
proof -
  have e: "RedisURL (DefaultTestConsumerConfig ''grp'') = ''''"
    by (simp add: DefaultTestConsumerConfig_def)
  have a: "NewConsumer (\<lambda>url. (redis_client, None)) ''c1'' live (DefaultTestConsumerConfig ''grp'')
     = (None, Some (Errorf ''redis url cannot be empty'' None))"
    using NewConsumer_requires_url
      [of "DefaultTestConsumerConfig ''grp''" "\<lambda>url. (redis_client, None)" "''c1''" live,
       THEN conjunct1] e
    by simp
  have b: "NewConsumer (\<lambda>url. (redis_client, None)) ''c1'' live example_cfg
     = (Some example_consumer, None)"
    by (simp add: NewConsumer_def example_cfg_def example_consumer_def DefaultTestConsumerConfig_def)
  have c: "NewConsumer (\<lambda>url. (redis_client, Some (OtherError ''invalid URL''))) ''c1'' live example_cfg
     = (None, Some (OtherError ''invalid URL''))"
    by (simp add: NewConsumer_def example_cfg_def DefaultTestConsumerConfig_def)
  show ?thesis
    by (intro conjI) (rule e a b c)+
qed

end
